theory Spec2Isabelle
  imports Main "HOL-Library.Word"
begin

unbundle bit_operations_syntax

section \<open>Go values used by the canvas\<close>

text \<open>
  Go's \<open>int\<close> is taken at its 64-bit width: a two's complement machine word on which
  \<open>+\<close> and \<open>-\<close> wrap around and the comparisons of the source are the signed ones
  (\<open><s\<close>, \<open>\<le>s\<close>). A \<open>rune\<close> is an \<open>int32\<close>. A Go string is a sequence of bytes, here a
  list of \<open>char\<close>; \<open>of_char\<close> reads a byte as a number.
\<close>

type_synonym go_int = "64 word"
type_synonym rune = "32 word"

text \<open>\<open>const escape = "\033"\<close>\<close>

definition escape :: string where
  "escape = [CHR 0x1B]"

subsection \<open>strconv.Itoa\<close>

text \<open>The decimal digits of a non-negative number, most significant first.\<close>

fun formatBits :: "nat \<Rightarrow> string" where
  "formatBits n =
     (if n < 10 then [''0123456789'' ! n]
      else formatBits (n div 10) @ [''0123456789'' ! (n mod 10)])"

declare formatBits.simps [simp del]

definition Itoa :: "go_int \<Rightarrow> string" where
  "Itoa i = (if i <s 0 then CHR ''-'' # formatBits (nat (- sint i)) else formatBits (nat (sint i)))"

subsection \<open>unicode/utf8: counting and encoding runes\<close>

text \<open>
  The table \<open>first\<close> of the library together with \<open>acceptRanges\<close>: for a leading byte at
  or above \<open>RuneSelf\<close> the size of the sequence and the range accepted for its second
  byte; \<open>None\<close> is the entry \<open>xx\<close> (no valid sequence starts with this byte).
\<close>

definition utf8_first :: "nat \<Rightarrow> (nat \<times> nat \<times> nat) option" where
  "utf8_first b =
     (if 0xC2 \<le> b \<and> b \<le> 0xDF then Some (2, 0x80, 0xBF)
      else if b = 0xE0 then Some (3, 0xA0, 0xBF)
      else if 0xE1 \<le> b \<and> b \<le> 0xEC then Some (3, 0x80, 0xBF)
      else if b = 0xED then Some (3, 0x80, 0x9F)
      else if 0xEE \<le> b \<and> b \<le> 0xEF then Some (3, 0x80, 0xBF)
      else if b = 0xF0 then Some (4, 0x90, 0xBF)
      else if 0xF1 \<le> b \<and> b \<le> 0xF3 then Some (4, 0x80, 0xBF)
      else if b = 0xF4 then Some (4, 0x80, 0x8F)
      else None)"

text \<open>
  One turn of the loop of \<open>RuneCountInString\<close> on a non-empty rest \<open>s\<close>: the number of
  bytes it steps over. An ASCII byte, an invalid leading byte, a sequence cut short by the
  end of the string and a sequence with a wrong continuation byte all count as one rune
  of one byte.
\<close>

definition rune_bytes :: "string \<Rightarrow> nat" where
  "rune_bytes s =
     (let c = (of_char (hd s) :: nat) in
      if c < 0x80 then 1
      else case utf8_first c of
        None \<Rightarrow> 1
      | Some (sz, lo, hi) \<Rightarrow>
          if length s < sz then 1
          else if (of_char (s ! 1) :: nat) < lo \<or> hi < (of_char (s ! 1) :: nat) then 1
          else if sz = 2 then 2
          else if (of_char (s ! 2) :: nat) < 0x80 \<or> 0xBF < (of_char (s ! 2) :: nat) then 1
          else if sz = 3 then 3
          else if (of_char (s ! 3) :: nat) < 0x80 \<or> 0xBF < (of_char (s ! 3) :: nat) then 1
          else 4)"

fun RuneCountInString :: "string \<Rightarrow> nat" where
  "RuneCountInString [] = 0"
| "RuneCountInString (c # cs) = Suc (RuneCountInString (drop (rune_bytes (c # cs) - 1) cs))"

text \<open>
  The conversion \<open>string(char)\<close> of a rune: its UTF-8 encoding, and the encoding of
  U+FFFD for a value that is no Unicode scalar value.
\<close>

definition string_of_rune :: "rune \<Rightarrow> string" where
  "string_of_rune r =
     (let i = sint r in
      if i < 0 \<or> 0x10FFFF < i \<or> (0xD800 \<le> i \<and> i \<le> 0xDFFF) then [CHR 0xEF, CHR 0xBF, CHR 0xBD]
      else let n = nat i in
        if n < 0x80 then [char_of n]
        else if n < 0x800 then [char_of (0xC0 + n div 64), char_of (0x80 + n mod 64)]
        else if n < 0x10000 then
          [char_of (0xE0 + n div 4096), char_of (0x80 + n div 64 mod 64), char_of (0x80 + n mod 64)]
        else
          [char_of (0xF0 + n div 262144), char_of (0x80 + n div 4096 mod 64),
           char_of (0x80 + n div 64 mod 64), char_of (0x80 + n mod 64)])"

section \<open>Colors and styles\<close>

text \<open>
  The field \<open>RGBA\<close> holds a value of the interface \<open>color.Color\<close> or \<open>nil\<close>; the values of
  the interface are the type parameter \<open>'c\<close>, compared by \<open>==\<close> as HOL compares them.
\<close>

record 'c Color =
  RGBA :: "'c option"
  Term256 :: "8 word"
  isDefault :: bool

definition ColorDefault :: "'c Color" where
  "ColorDefault = \<lparr>RGBA = None, Term256 = 0, isDefault = True\<rparr>"

definition ColorBlack :: "'c Color" where
  "ColorBlack = \<lparr>RGBA = None, Term256 = 0, isDefault = False\<rparr>"

definition ColorRed :: "'c Color" where
  "ColorRed = \<lparr>RGBA = None, Term256 = 1, isDefault = False\<rparr>"














definition ColorWhite :: "'c Color" where
  "ColorWhite = \<lparr>RGBA = None, Term256 = 15, isDefault = False\<rparr>"

text \<open>The style constants, \<open>1 << iota\<close> for \<open>iota\<close> from 0 to 7.\<close>

definition StyleNoChange :: go_int where "StyleNoChange = push_bit 0 1"
definition StyleNormal :: go_int where "StyleNormal = push_bit 1 1"
definition StyleBold :: go_int where "StyleBold = push_bit 2 1"
definition StyleDim :: go_int where "StyleDim = push_bit 3 1"
definition StyleUnderlined :: go_int where "StyleUnderlined = push_bit 4 1"
definition StyleBlink :: go_int where "StyleBlink = push_bit 5 1"
definition StyleInverted :: go_int where "StyleInverted = push_bit 6 1"
definition StyleHidden :: go_int where "StyleHidden = push_bit 7 1"

section \<open>The canvas\<close>

text \<open>
  The struct \<open>Canvas\<close>, its unexported fields written \<open>c_x\<close>, \<open>c_y\<close>, \<open>c_fg\<close>, \<open>c_bg\<close>,
  \<open>c_style\<close> and \<open>c_buf\<close>. The mutex is left out: the operations below are the unguarded
  ones, which the guarded variants run unchanged while holding the lock. Two fields stand
  for what the canvas does to its surroundings:
  \<^item> \<open>Logger\<close> is \<open>None\<close> for a nil logger, and otherwise the messages the logger has been
    given so far, each already formatted;
  \<^item> \<open>printed\<close> lists the calls \<open>fmt.Printf(format)\<close> made on standard output, one entry
    per call, each entry being the format string handed over (no operands follow it).
\<close>

record 'c Canvas =
  Width :: go_int
  Height :: go_int
  Logger :: "string list option"
  Background :: "'c Color"
  CursorOnEnd :: bool
  c_buf :: string
  c_x :: go_int
  c_y :: go_int
  c_fg :: "'c Color"
  c_bg :: "'c Color"
  c_style :: go_int
  printed :: "string list"

datatype error = ErrorOutOfBounds | ErrorTruncated

text \<open>\<open>c.buf.WriteString(s)\<close>\<close>

definition WriteString :: "string \<Rightarrow> 'c Canvas \<Rightarrow> 'c Canvas" where
  "WriteString s c = c\<lparr>c_buf := c_buf c @ s\<rparr>"

text \<open>
  \<open>errorF\<close>, applied to the message with its operands already substituted (\<open>%d\<close> prints an
  \<open>int\<close> as \<open>Itoa\<close> does, \<open>%s\<close> a string as it is).
\<close>

definition errorF :: "string \<Rightarrow> 'c Canvas \<Rightarrow> 'c Canvas" where
  "errorF msg c =
     (case Logger c of
        None \<Rightarrow> c
      | Some seen \<Rightarrow> c\<lparr>Logger := Some (seen @ [''[error] '' @ msg])\<rparr>)"

subsection \<open>Colors\<close>

text \<open>
  \<open>setBgFg\<close>. The palette \<open>Colors\<close> is not among the sources; \<open>ix\<close> stands for
  \<open>Colors.Index\<close>, the function from a color value to its palette index.
\<close>

definition setBgFg :: "('c \<Rightarrow> go_int) \<Rightarrow> 'c Color \<Rightarrow> bool \<Rightarrow> 'c Canvas \<Rightarrow> 'c Canvas" where
  "setBgFg ix clr bg c =
     (let op = (if bg then ''4'' else ''3'') in
      if isDefault clr then
        WriteString ''9m'' (WriteString op (WriteString (escape @ ''['') c))
      else
        let x256Clr = (case RGBA clr of Some v \<Rightarrow> ix v | None \<Rightarrow> ucast (Term256 clr)) in
        WriteString ''m'' (WriteString (Itoa x256Clr) (WriteString ''8;5;''
          (WriteString op (WriteString (escape @ ''['') c)))))"

definition SetBackground :: "('c \<Rightarrow> go_int) \<Rightarrow> 'c Color \<Rightarrow> 'c Canvas \<Rightarrow> 'c Canvas" where
  "SetBackground ix clr c =
     (if c_bg c = clr then c else (setBgFg ix clr True c)\<lparr>c_bg := clr\<rparr>)"

definition SetForeground :: "('c \<Rightarrow> go_int) \<Rightarrow> 'c Color \<Rightarrow> 'c Canvas \<Rightarrow> 'c Canvas" where
  "SetForeground ix clr c =
     (if c_fg c = clr then c else (setBgFg ix clr False c)\<lparr>c_fg := clr\<rparr>)"

subsection \<open>Style\<close>

definition SetStyle :: "go_int \<Rightarrow> 'c Canvas \<Rightarrow> 'c Canvas" where
  "SetStyle sty c =
     (if c_style c = sty then c
      else
        let c1 = (if sty AND StyleNormal \<noteq> 0 then WriteString (escape @ ''[0m'') c else c);
            c2 = (if sty AND StyleBold \<noteq> 0 then WriteString (escape @ ''[1m'') c1 else c1);
            c3 = (if sty AND StyleDim \<noteq> 0 then WriteString (escape @ ''[2m'') c2 else c2);
            c4 = (if sty AND StyleUnderlined \<noteq> 0 then WriteString (escape @ ''[4m'') c3 else c3);
            c5 = (if sty AND StyleBlink \<noteq> 0 then WriteString (escape @ ''[5m'') c4 else c4);
            c6 = (if sty AND StyleInverted \<noteq> 0 then WriteString (escape @ ''[7m'') c5 else c5);
            c7 = (if sty AND StyleHidden \<noteq> 0 then WriteString (escape @ ''[8m'') c6 else c6)
        in c7\<lparr>c_style := sty\<rparr>)"

subsection \<open>Cursor\<close>

text \<open>The two closures of \<open>Move\<close>: \<open>write\<close> and \<open>move\<close>.\<close>

definition Move_write :: "go_int \<Rightarrow> string \<Rightarrow> 'c Canvas \<Rightarrow> 'c Canvas" where
  "Move_write num op c = WriteString (escape @ ''['' @ Itoa num @ op) c"

definition Move_move :: "go_int \<Rightarrow> go_int \<Rightarrow> string \<Rightarrow> string \<Rightarrow> 'c Canvas \<Rightarrow> 'c Canvas" where
  "Move_move cur given forwardOp backwardOp c =
     (if cur <s given then Move_write (given - cur) forwardOp c
      else if given <s cur then Move_write (cur - given) backwardOp c
      else c)"

text \<open>\<open>Move\<close> returns its error (\<open>None\<close> is \<open>nil\<close>) and the canvas as it leaves it.\<close>

definition Move :: "go_int \<Rightarrow> go_int \<Rightarrow> 'c Canvas \<Rightarrow> error option \<times> 'c Canvas" where
  "Move x y c =
     (if c_x c = x \<and> c_y c = y then (None, c)
      else if Width c - 1 <s x \<or> x <s 0 \<or> Height c - 1 <s y \<or> y <s 0 then
        (Some ErrorOutOfBounds,
         errorF (''out of bounds: ('' @ Itoa x @ '','' @ Itoa y @ '')'') c)
      else
        let c1 = Move_move (c_x c) x ''C'' ''D'' c;
            c2 = Move_move (c_y c1) y ''B'' ''A'' c1
        in (None, c2\<lparr>c_x := x, c_y := y\<rparr>))"

subsection \<open>Text\<close>

text \<open>
  \<open>Write\<close> from the statement \<open>c.buf.WriteString(text)\<close> on, with \<open>text\<close> as it is at that
  point.
\<close>

definition Write_rest :: "string \<Rightarrow> 'c Canvas \<Rightarrow> 'c Canvas" where
  "Write_rest text c =
     (let c1 = WriteString text c;
          c2 = c1\<lparr>c_x := c_x c1 + of_nat (RuneCountInString text)\<rparr>
      in if Width c2 \<le>s c_x c2 then snd (Move (Width c2 - 1) (c_y c2) c2) else c2)"

text \<open>
  \<open>Write\<close>. The slice expression \<open>text[0:r]\<close> takes the first \<open>r\<close> bytes and panics when
  \<open>r\<close> is negative or exceeds the length of the string; \<open>None\<close> is that panic. A Go
  string is shorter than \<open>2 ^ 63\<close> bytes, so its length and its rune count are read at
  their numeric value and compared with the signed value of \<open>r\<close>.
\<close>

definition Write :: "string \<Rightarrow> 'c Canvas \<Rightarrow> 'c Canvas option" where
  "Write text c =
     (let r = Width c - c_x c;
          l = int (RuneCountInString text)
      in if sint r < l then
           (if r <s 0 \<or> int (length text) < sint r then None
            else Some (Write_rest (take (nat (sint r)) text)
                         (errorF (''string truncated: '' @ text) c)))
         else Some (Write_rest text c))"

definition Set :: "go_int \<Rightarrow> go_int \<Rightarrow> rune \<Rightarrow> 'c Canvas \<Rightarrow> 'c Canvas option" where
  "Set x y char c =
     (case Move x y c of
        (None, c1) \<Rightarrow> Write (string_of_rune char) c1
      | (Some err, c1) \<Rightarrow> Some c1)"

definition WriteAt ::
  "('c \<Rightarrow> go_int) \<Rightarrow> go_int \<Rightarrow> go_int \<Rightarrow> 'c Color \<Rightarrow> 'c Color \<Rightarrow> go_int \<Rightarrow> string \<Rightarrow>
   'c Canvas \<Rightarrow> 'c Canvas option" where
  "WriteAt ix x y foreground background sty text c =
     (case Move x y c of
        (Some err, c1) \<Rightarrow> Some c1
      | (None, c1) \<Rightarrow>
          Write text (SetBackground ix background (SetForeground ix foreground (SetStyle sty c1))))"

subsection \<open>Flush\<close>

definition Flush :: "'c Canvas \<Rightarrow> 'c Canvas" where
  "Flush c =
     (let c1 = (if CursorOnEnd c then snd (Move (Width c - 1) (Height c - 1) c) else c)
      in c1\<lparr>printed := printed c1 @ [c_buf c1], c_buf := []\<rparr>)"


subsection \<open>Construction\<close>

text \<open>The inner loop of \<open>NewCanvas\<close>, from its counter \<open>i\<close> on.\<close>

function NewCanvas_cols :: "go_int \<Rightarrow> 'c Canvas \<Rightarrow> 'c Canvas" where
  "NewCanvas_cols i c =
     (if i <s Width c then NewCanvas_cols (i + 1) (WriteString '' '' c) else c)"
  by pat_completeness auto
termination
proof (relation "measure (\<lambda>(i, c). nat (sint (Width c) - sint i))")
  show "wf (measure (\<lambda>(i, c :: 'c Canvas). nat (sint (Width c) - sint i)))"
    by simp
next
  fix i :: go_int and c :: "'c Canvas"
  assume less: "i <s Width c"
  have "sint (Width c) < 2 ^ 63"
    using sint_lt [of "Width c"] by simp
  moreover have "- (2 ^ 63) \<le> sint i"
    using sint_ge [of i] by simp
  ultimately have "sint (i + 1) = sint i + 1"
    using less by (simp add: word_sless_alt sint_word_ariths signed_take_bit_int_eq_self)
  then show "((i + 1, WriteString '' '' c), (i, c))
      \<in> measure (\<lambda>(i, c). nat (sint (Width c) - sint i))"
    using less by (simp add: word_sless_alt WriteString_def)
qed

declare NewCanvas_cols.simps [simp del]

text \<open>The outer loop of \<open>NewCanvas\<close>, from its counter \<open>i\<close> on.\<close>

function NewCanvas_rows :: "('c \<Rightarrow> go_int) \<Rightarrow> 'c Color \<Rightarrow> go_int \<Rightarrow> 'c Canvas \<Rightarrow> 'c Canvas" where
  "NewCanvas_rows ix background i c =
     (if i <s Height c then
        let c1 = NewCanvas_cols 0 c;
            c2 = (if i <s Height c1 - 1 then
                    SetBackground ix background
                      (WriteString [CHR 0x0A] (SetBackground ix ColorDefault c1))
                  else c1)
        in NewCanvas_rows ix background (i + 1) c2
      else c)"
  by pat_completeness auto
termination
proof (relation "measure (\<lambda>(ix, background, i, c). nat (sint (Height c) - sint i))")
  show "wf (measure (\<lambda>(ix :: 'c \<Rightarrow> go_int, background :: 'c Color, i, c :: 'c Canvas).
      nat (sint (Height c) - sint i)))"
    by simp
next
  fix ix :: "'c \<Rightarrow> go_int" and background :: "'c Color" and i :: go_int
    and c c1 c2 :: "'c Canvas"
  assume less: "i <s Height c"
    and c1: "c1 = NewCanvas_cols 0 c"
    and c2: "c2 = (if i <s Height c1 - 1 then
                    SetBackground ix background
                      (WriteString [CHR 0x0A] (SetBackground ix ColorDefault c1))
                  else c1)"
  have cols: "Height (NewCanvas_cols j d) = Height d" for j and d :: "'c Canvas"
    by (induction j d rule: NewCanvas_cols.induct)
      (subst NewCanvas_cols.simps, simp add: WriteString_def)
  have bg: "Height (SetBackground ix k d) = Height d" for k and d :: "'c Canvas"
    by (simp add: SetBackground_def setBgFg_def WriteString_def Let_def)
  have same: "Height c2 = Height c"
    using c1 c2 by (simp add: cols bg WriteString_def)
  have "sint (Height c) < 2 ^ 63"
    using sint_lt [of "Height c"] by simp
  moreover have "- (2 ^ 63) \<le> sint i"
    using sint_ge [of i] by simp
  ultimately have "sint (i + 1) = sint i + 1"
    using less by (simp add: word_sless_alt sint_word_ariths signed_take_bit_int_eq_self)
  then show "((ix, background, i + 1, c2), (ix, background, i, c))
      \<in> measure (\<lambda>(ix, background, i, c). nat (sint (Height c) - sint i))"
    using less same by (simp add: word_sless_alt)
qed

declare NewCanvas_rows.simps [simp del]


text \<open>
  \<open>NewCanvas\<close> up to and including the assignment \<open>c.x, c.y = width, height-1\<close>. The
  struct literal leaves every other field at its zero value.
\<close>

definition NewCanvas_fill :: "('c \<Rightarrow> go_int) \<Rightarrow> go_int \<Rightarrow> go_int \<Rightarrow> 'c Color \<Rightarrow> 'c Canvas" where
  "NewCanvas_fill ix width height background =
     (let c0 = \<lparr>Width = width, Height = height, Logger = None, Background = background,
                CursorOnEnd = False, c_buf = [], c_x = 0, c_y = 0,
                c_fg = \<lparr>RGBA = None, Term256 = 0, isDefault = False\<rparr>,
                c_bg = \<lparr>RGBA = None, Term256 = 0, isDefault = False\<rparr>,
                c_style = 0, printed = []\<rparr>;
          c1 = SetBackground ix background c0;
          c2 = SetStyle StyleNormal c1;
          c3 = NewCanvas_rows ix background 0 c2
      in c3\<lparr>c_x := width, c_y := height - 1\<rparr>)"

definition NewCanvas :: "('c \<Rightarrow> go_int) \<Rightarrow> go_int \<Rightarrow> go_int \<Rightarrow> 'c Color \<Rightarrow> 'c Canvas" where
  "NewCanvas ix width height background =
     Flush (snd (Move 0 0 (NewCanvas_fill ix width height background)))"

subsection \<open>Clear\<close>







section \<open>Sequences of public operations\<close>




text \<open>The cached cursor lies on the canvas.\<close>

definition in_bounds :: "'c Canvas \<Rightarrow> bool" where
  "in_bounds c \<longleftrightarrow> 0 \<le>s c_x c \<and> c_x c <s Width c \<and> 0 \<le>s c_y c \<and> c_y c <s Height c"

section \<open>The palette\<close>




section \<open>Concrete canvases\<close>

text \<open>
  A canvas of ten columns and five rows with the default background, and a canvas of three
  columns and one row; the theorems below are instantiated on them. Their colors carry no
  RGB values, so the palette function is never consulted and any function serves.
\<close>

definition ten_by_five :: "unit Canvas" where
  "ten_by_five = NewCanvas (\<lambda>v. 0) 10 5 ColorDefault"

definition three_by_one :: "unit Canvas" where
  "three_by_one = NewCanvas (\<lambda>v. 0) 3 1 ColorDefault"





section \<open>Signed arithmetic on the canvas\<close>

lemma formatBits_digit: "n < 10 \<Longrightarrow> formatBits n = [''0123456789'' ! n]"
  by (subst formatBits.simps) simp

lemma sint_sub_nonneg:
  fixes a b :: go_int
  assumes "0 \<le>s a" "0 \<le>s b"
  shows "sint (b - a) = sint b - sint a"
proof -
  have a: "0 \<le> sint a" and b: "0 \<le> sint b"
    using assms by (simp_all add: word_sle_eq)
  have "sint a < 2 ^ 63" "sint b < 2 ^ 63"
    using sint_lt [of a] sint_lt [of b] by simp_all
  then have "- (2 ^ 63) \<le> sint b - sint a" "sint b - sint a < 2 ^ 63"
    using a b by simp_all
  then show ?thesis
    by (simp add: sint_word_ariths signed_take_bit_int_eq_self)
qed

lemma sint_pred:
  fixes w :: go_int
  assumes "0 <s w"
  shows "sint (w - 1) = sint w - 1"
  using assms sint_sub_nonneg [of 1 w] by (simp add: word_sle_eq word_sless_alt)


lemma sint_of_nat_small:
  assumes "int n < 2 ^ 63"
  shows "sint (of_nat n :: go_int) = int n"
proof -
  have "sint (word_of_int (int n) :: go_int) = signed_take_bit (LENGTH(64) - 1) (int n)"
    by (rule sint_sbintrunc')
  also have "\<dots> = int n"
    using assms by (simp add: signed_take_bit_int_eq_self)
  finally show ?thesis
    by simp
qed

lemma sint_add_count:
  fixes a :: go_int
  assumes "0 \<le> sint a" "sint a + int n < 2 ^ 63"
  shows "sint (a + of_nat n) = sint a + int n"
proof -
  have "int n < 2 ^ 63"
    using assms by linarith
  then have n: "sint (of_nat n :: go_int) = int n"
    by (rule sint_of_nat_small)
  have "sint (a + of_nat n) = signed_take_bit (LENGTH(64) - 1) (sint a + sint (of_nat n :: go_int))"
    by (rule sint_word_ariths)
  also have "\<dots> = sint a + int n"
    using assms by (simp add: n signed_take_bit_int_eq_self)
  finally show ?thesis .
qed

section \<open>The concrete canvases, evaluated\<close>

lemma ten_by_five_eq:
  "ten_by_five =
     \<lparr>Width = 10, Height = 5, Logger = None, Background = ColorDefault, CursorOnEnd = False,
      c_buf = [], c_x = 0, c_y = 0, c_fg = ColorBlack, c_bg = ColorDefault, c_style = 2,
      printed = [escape @ ''[49m'' @ escape @ ''[0m''
        @ ''          '' @ [CHR 0x0A] @ ''          '' @ [CHR 0x0A] @ ''          ''
        @ [CHR 0x0A] @ ''          '' @ [CHR 0x0A] @ ''          ''
        @ escape @ ''[10D'' @ escape @ ''[4A'']\<rparr>"
  by code_simp

lemma three_by_one_eq:
  "three_by_one =
     \<lparr>Width = 3, Height = 1, Logger = None, Background = ColorDefault, CursorOnEnd = False,
      c_buf = [], c_x = 0, c_y = 0, c_fg = ColorBlack, c_bg = ColorDefault, c_style = 2,
      printed = [escape @ ''[49m'' @ escape @ ''[0m'' @ ''   '' @ escape @ ''[3D'']\<rparr>"
  by code_simp


lemma in_bounds_three_by_one: "in_bounds three_by_one"
  by (simp add: in_bounds_def three_by_one_eq word_sle_eq word_sless_alt)

section \<open>Diagnostics leave the drawing state alone\<close>

lemma errorF_Logger:
  "errorF msg c = c\<lparr>Logger := map_option (\<lambda>seen. seen @ [''[error] '' @ msg]) (Logger c)\<rparr>"
  by (cases "Logger c") (simp_all add: errorF_def)

lemma errorF_fields [simp]:
  "Width (errorF msg c) = Width c" "Height (errorF msg c) = Height c"
  "CursorOnEnd (errorF msg c) = CursorOnEnd c" "Background (errorF msg c) = Background c"
  "c_buf (errorF msg c) = c_buf c" "c_x (errorF msg c) = c_x c" "c_y (errorF msg c) = c_y c"
  "c_fg (errorF msg c) = c_fg c" "c_bg (errorF msg c) = c_bg c" "c_style (errorF msg c) = c_style c"
  "printed (errorF msg c) = printed c"
  by (simp_all add: errorF_Logger)

lemma in_bounds_errorF [simp]: "in_bounds (errorF msg c) = in_bounds c"
  by (simp add: in_bounds_def)

lemma in_bounds_Logger [simp]: "in_bounds (c\<lparr>Logger := lg\<rparr>) = in_bounds c"
  by (simp add: in_bounds_def)

section \<open>Move\<close>

lemma Move_move_nonneg:
  fixes cur given :: go_int
  assumes "0 \<le>s cur" "0 \<le>s given"
  shows "Move_move cur given f b c =
     c\<lparr>c_buf := c_buf c @ (if given = cur then [] else
          escape @ ''['' @ formatBits (nat \<bar>sint given - sint cur\<bar>)
            @ (if cur <s given then f else b))\<rparr>"
proof -
  have "sint (given - cur) = sint given - sint cur"
    and "sint (cur - given) = sint cur - sint given"
    using assms by (simp_all add: sint_sub_nonneg)
  with assms show ?thesis
    by (auto simp: Move_move_def Move_write_def WriteString_def Itoa_def word_sless_alt
        word_sle_eq abs_if dest: signed_word_eqI)
qed

lemma Move_to_target:
  assumes "0 \<le>s c_x c" "0 \<le>s c_y c"
    and "0 \<le>s x" "x <s Width c" "0 \<le>s y" "y <s Height c"
  shows "Move x y c =
     (None, c\<lparr>c_buf := c_buf c
        @ (if x = c_x c then []
           else escape @ ''['' @ formatBits (nat \<bar>sint x - sint (c_x c)\<bar>)
             @ (if c_x c <s x then ''C'' else ''D''))
        @ (if y = c_y c then []
           else escape @ ''['' @ formatBits (nat \<bar>sint y - sint (c_y c)\<bar>)
             @ (if c_y c <s y then ''B'' else ''A'')),
        c_x := x, c_y := y\<rparr>)"
proof -
  have "0 <s Width c" "0 <s Height c"
    using assms by (simp_all add: word_sle_eq word_sless_alt)
  then have "sint (Width c - 1) = sint (Width c) - 1" "sint (Height c - 1) = sint (Height c) - 1"
    by (simp_all add: sint_pred)
  then have inside: "\<not> (Width c - 1 <s x \<or> x <s 0 \<or> Height c - 1 <s y \<or> y <s 0)"
    using assms by (simp add: word_sle_eq word_sless_alt)
  show ?thesis
  proof (cases "c_x c = x \<and> c_y c = y")
    case True
    then show ?thesis by (auto simp: Move_def)
  next
    case False
    then show ?thesis
      using inside assms by (simp add: Move_def Let_def Move_move_nonneg)
  qed
qed

text \<open>
  Claim C1. On a canvas whose cached cursor is in bounds, \<open>Move\<close> to an in-bounds target
  succeeds and appends to the buffer one horizontal fragment, whose repeat count is the
  absolute horizontal distance and whose opcode is \<open>C\<close> (forward) or \<open>D\<close> (backward), left
  out when that distance is zero, then one vertical fragment, with the absolute vertical
  distance and the opcode \<open>B\<close> (down) or \<open>A\<close> (up), left out when that distance is zero;
  it sets the cached cursor to the target and changes nothing else. \<open>Move\<close> to the cached
  cursor itself leaves the canvas as it is.
\<close>

theorem C1_Move_fragments:
  assumes "0 \<le>s c_x c" "c_x c <s Width c" "0 \<le>s c_y c" "c_y c <s Height c"
    and "0 \<le>s x" "x <s Width c" "0 \<le>s y" "y <s Height c"
  shows "Move x y c =
     (None, c\<lparr>c_buf := c_buf c
        @ (if x = c_x c then []
           else escape @ ''['' @ formatBits (nat \<bar>sint x - sint (c_x c)\<bar>)
             @ (if c_x c <s x then ''C'' else ''D''))
        @ (if y = c_y c then []
           else escape @ ''['' @ formatBits (nat \<bar>sint y - sint (c_y c)\<bar>)
             @ (if c_y c <s y then ''B'' else ''A'')),
        c_x := x, c_y := y\<rparr>)
   \<and> Move (c_x c) (c_y c) c = (None, c)"
  using assms Move_to_target [of c x y] by (simp add: Move_def)

theorem C1_Move_fragments_witness:
  "0 \<le>s c_x ten_by_five \<and> c_x ten_by_five <s Width ten_by_five
   \<and> 0 \<le>s c_y ten_by_five \<and> c_y ten_by_five <s Height ten_by_five
   \<and> (0 :: go_int) \<le>s 3 \<and> 3 <s Width ten_by_five \<and> (0 :: go_int) \<le>s 2 \<and> 2 <s Height ten_by_five
   \<and> Move 3 2 ten_by_five =
       (None, ten_by_five\<lparr>c_buf := escape @ ''[3C'' @ escape @ ''[2B'', c_x := 3, c_y := 2\<rparr>)
   \<and> Move 0 0 ten_by_five = (None, ten_by_five)"
proof -
  have hyps: "0 \<le>s c_x ten_by_five" "c_x ten_by_five <s Width ten_by_five"
    "0 \<le>s c_y ten_by_five" "c_y ten_by_five <s Height ten_by_five"
    "(0 :: go_int) \<le>s 3" "3 <s Width ten_by_five" "(0 :: go_int) \<le>s 2" "2 <s Height ten_by_five"
    by (simp_all add: ten_by_five_eq word_sless_alt word_sle_eq)
  have cur: "c_x ten_by_five = 0" "c_y ten_by_five = 0" "c_buf ten_by_five = []"
    by (simp_all add: ten_by_five_eq)
  from C1_Move_fragments [OF hyps] hyps show ?thesis
    by (simp add: cur formatBits_digit word_sless_alt)
qed




section \<open>Write\<close>

lemma RuneCountInString_le_length: "RuneCountInString s \<le> length s"
proof (induction s rule: RuneCountInString.induct)
  case 1
  show ?case by simp
next
  case (2 c cs)
  have "length (drop (rune_bytes (c # cs) - 1) cs) \<le> length cs"
    by simp
  with 2 show ?case by simp
qed

lemma Write_rest_fits:
  assumes "in_bounds c"
    and "sint (c_x c) + int (RuneCountInString t) \<le> sint (Width c)"
  shows "Write_rest t c =
     c\<lparr>c_buf := c_buf c @ t
          @ (if sint (Width c) \<le> sint (c_x c) + int (RuneCountInString t) then escape @ ''[1D'' else []),
       c_x := (if sint (Width c) \<le> sint (c_x c) + int (RuneCountInString t) then Width c - 1
               else c_x c + of_nat (RuneCountInString t))\<rparr>"
proof -
  let ?n = "RuneCountInString t"
  let ?c2 = "c\<lparr>c_buf := c_buf c @ t, c_x := c_x c + of_nat ?n\<rparr>"
  from assms(1) have b: "0 \<le> sint (c_x c)" "sint (c_x c) < sint (Width c)"
    "0 \<le>s c_y c" "c_y c <s Height c"
    by (simp_all add: in_bounds_def word_sle_eq word_sless_alt)
  have "sint (Width c) < 2 ^ 63"
    using sint_lt [of "Width c"] by simp
  with assms(2) b have sum: "sint (c_x c + of_nat ?n) = sint (c_x c) + int ?n"
    by (intro sint_add_count) simp_all
  show ?thesis
  proof (cases "sint (Width c) \<le> sint (c_x c) + int ?n")
    case True
    with assms(2) sum have "sint (c_x c + of_nat ?n) = sint (Width c)"
      by simp
    then have at: "c_x c + of_nat ?n = Width c"
      by (rule signed_word_eqI)
    have pos: "0 <s Width c"
      using b by (simp add: word_sless_alt)
    then have pred: "sint (Width c - 1) = sint (Width c) - 1"
      by (rule sint_pred)
    have "Move (Width ?c2 - 1) (c_y ?c2) ?c2 =
      (None, ?c2\<lparr>c_buf := c_buf ?c2 @ escape @ ''[1D'' @ [], c_x := Width c - 1, c_y := c_y c\<rparr>)"
      using b pos pred at
      by (subst Move_to_target)
        (auto simp: word_sle_eq word_sless_alt formatBits_digit dest: signed_word_eqI)
    with True at show ?thesis
      by (simp add: Write_rest_def WriteString_def Let_def word_sle_eq)
  next
    case False
    with sum show ?thesis
      by (simp add: Write_rest_def WriteString_def Let_def word_sle_eq)
  qed
qed

lemma Write_in_bounds:
  assumes "in_bounds c"
    and room_def: "room = sint (Width c) - sint (c_x c)"
    and written_def: "written = (if room < int (RuneCountInString t) then take (nat room) t else t)"
    and n_def: "n = int (RuneCountInString written)"
  shows "Write t c =
     Some ((if room < int (RuneCountInString t) then errorF (''string truncated: '' @ t) c else c)
       \<lparr>c_buf := c_buf c @ written @ (if sint (Width c) \<le> sint (c_x c) + n then escape @ ''[1D'' else []),
        c_x := (if sint (Width c) \<le> sint (c_x c) + n then Width c - 1
                else c_x c + of_nat (RuneCountInString written))\<rparr>)"
    and "sint (c_x c) + n \<le> sint (Width c)"
proof -
  from assms(1) have b: "0 \<le>s c_x c" "c_x c <s Width c" "0 \<le>s Width c"
    by (simp_all add: in_bounds_def word_sle_eq word_sless_alt)
  then have r: "sint (Width c - c_x c) = room"
    unfolding room_def by (simp add: sint_sub_nonneg)
  have room: "0 < room"
    using b by (simp add: room_def word_sless_alt)
  have fits: "sint (c_x c) + n \<le> sint (Width c)"
  proof (cases "room < int (RuneCountInString t)")
    case True
    then have "written = take (nat room) t"
      by (simp add: written_def)
    then have "RuneCountInString written \<le> nat room"
      using RuneCountInString_le_length [of written] by simp
    then show ?thesis
      using room by (simp add: n_def room_def)
  next
    case False
    then show ?thesis
      by (simp add: written_def n_def room_def)
  qed
  then show "sint (c_x c) + n \<le> sint (Width c)" .
  show "Write t c =
     Some ((if room < int (RuneCountInString t) then errorF (''string truncated: '' @ t) c else c)
       \<lparr>c_buf := c_buf c @ written @ (if sint (Width c) \<le> sint (c_x c) + n then escape @ ''[1D'' else []),
        c_x := (if sint (Width c) \<le> sint (c_x c) + n then Width c - 1
                else c_x c + of_nat (RuneCountInString written))\<rparr>)"
  proof (cases "room < int (RuneCountInString t)")
    case True
    let ?c = "errorF (''string truncated: '' @ t) c"
    have w: "written = take (nat room) t"
      using True by (simp add: written_def)
    have "int (RuneCountInString t) \<le> int (length t)"
      using RuneCountInString_le_length [of t] by simp
    with True room have nopanic: "\<not> (Width c - c_x c <s 0 \<or> int (length t) < sint (Width c - c_x c))"
      by (simp add: r word_sless_alt)
    have inb: "in_bounds ?c"
      using assms(1) by simp
    have "Write t c = Some (Write_rest written ?c)"
      using True nopanic by (simp add: Write_def Let_def r w)
    also have "Write_rest written ?c =
      ?c\<lparr>c_buf := c_buf ?c @ written
          @ (if sint (Width ?c) \<le> sint (c_x ?c) + int (RuneCountInString written) then escape @ ''[1D'' else []),
       c_x := (if sint (Width ?c) \<le> sint (c_x ?c) + int (RuneCountInString written) then Width ?c - 1
               else c_x ?c + of_nat (RuneCountInString written))\<rparr>"
      using inb fits by (intro Write_rest_fits) (simp_all add: n_def)
    finally show ?thesis
      using True by (simp add: n_def)
  next
    case False
    have w: "written = t"
      using False by (simp add: written_def)
    have "Write t c = Some (Write_rest written c)"
      using False by (simp add: Write_def Let_def r w)
    also have "Write_rest written c =
      c\<lparr>c_buf := c_buf c @ written
          @ (if sint (Width c) \<le> sint (c_x c) + int (RuneCountInString written) then escape @ ''[1D'' else []),
       c_x := (if sint (Width c) \<le> sint (c_x c) + int (RuneCountInString written) then Width c - 1
               else c_x c + of_nat (RuneCountInString written))\<rparr>"
      using assms(1) fits by (intro Write_rest_fits) (simp_all add: n_def)
    finally show ?thesis
      using False by (simp add: n_def)
  qed
qed

text \<open>
  Claim C3 does not hold of the code: \<open>Write\<close> cuts the text with the slice expression
  \<open>text[0:r]\<close>, which keeps the first \<open>r\<close> bytes, where the claim (and the remark left
  in the source at that line) asks for the first \<open>r\<close> runes. On the canvas of three
  columns, with a logger attached, the text of four runes \<open>U+00E9\<close> (two bytes each) is cut
  to three bytes, one rune and the first half of the next, instead of the three runes of
  six bytes; the diagnostic is signaled as claimed.
\<close>

theorem C3_Write_truncates_bytes:
  "RuneCountInString [CHR 0xC3, CHR 0xA9, CHR 0xC3, CHR 0xA9, CHR 0xC3, CHR 0xA9, CHR 0xC3, CHR 0xA9] = 4
   \<and> Write [CHR 0xC3, CHR 0xA9, CHR 0xC3, CHR 0xA9, CHR 0xC3, CHR 0xA9, CHR 0xC3, CHR 0xA9]
         (three_by_one\<lparr>Logger := Some []\<rparr>)
     = Some (three_by_one
         \<lparr>Logger := Some [''[error] string truncated: ''
            @ [CHR 0xC3, CHR 0xA9, CHR 0xC3, CHR 0xA9, CHR 0xC3, CHR 0xA9, CHR 0xC3, CHR 0xA9]],
          c_buf := [CHR 0xC3, CHR 0xA9, CHR 0xC3], c_x := 2\<rparr>)"
  by code_simp

lemma Write_result:
  assumes "in_bounds c"
  shows "let room = sint (Width c) - sint (c_x c);
             written = (if room < int (RuneCountInString s) then take (nat room) s else s);
             n = int (RuneCountInString written)
         in \<exists>c'. Write s c = Some c'
              \<and> c_buf c' = c_buf c @ written
                    @ (if sint (Width c) \<le> sint (c_x c) + n then escape @ ''[1D'' else [])
              \<and> sint (c_x c') = min (sint (c_x c) + n) (sint (Width c) - 1)
              \<and> c_y c' = c_y c \<and> in_bounds c'
              \<and> Width c' = Width c \<and> Height c' = Height c
              \<and> (int (RuneCountInString s) = room \<longrightarrow> sint (c_x c') = sint (Width c) - 1)"
proof -
  define room where "room = sint (Width c) - sint (c_x c)"
  define written where "written = (if room < int (RuneCountInString s) then take (nat room) s else s)"
  define n where "n = int (RuneCountInString written)"
  define c' where "c' = (if room < int (RuneCountInString s) then errorF (''string truncated: '' @ s) c else c)
       \<lparr>c_buf := c_buf c @ written @ (if sint (Width c) \<le> sint (c_x c) + n then escape @ ''[1D'' else []),
        c_x := (if sint (Width c) \<le> sint (c_x c) + n then Width c - 1
                else c_x c + of_nat (RuneCountInString written))\<rparr>"
  have wr: "Write s c = Some c'" and fits: "sint (c_x c) + n \<le> sint (Width c)"
    using Write_in_bounds [OF assms room_def written_def n_def] by (simp_all add: c'_def)
  from assms have b: "0 \<le> sint (c_x c)" "sint (c_x c) < sint (Width c)" "0 <s Width c"
    "0 \<le>s c_y c" "c_y c <s Height c"
    by (simp_all add: in_bounds_def word_sle_eq word_sless_alt)
  have pred: "sint (Width c - 1) = sint (Width c) - 1"
    using b(3) by (rule sint_pred)
  have "sint (Width c) < 2 ^ 63"
    using sint_lt [of "Width c"] by simp
  then have sum: "sint (c_x c + of_nat (RuneCountInString written)) = sint (c_x c) + n"
    unfolding n_def using b fits by (intro sint_add_count) (simp_all add: n_def)
  have dims: "Width c' = Width c" "Height c' = Height c" "c_y c' = c_y c"
    by (simp_all add: c'_def)
  have x: "sint (c_x c') = min (sint (c_x c) + n) (sint (Width c) - 1)"
    using fits by (simp add: c'_def pred sum)
  have n: "0 \<le> n"
    by (simp add: n_def)
  have inb: "in_bounds c'"
    using b x n dims by (simp add: in_bounds_def word_sle_eq word_sless_alt)
  have buf: "c_buf c' = c_buf c @ written
      @ (if sint (Width c) \<le> sint (c_x c) + n then escape @ ''[1D'' else [])"
    by (simp add: c'_def)
  have fill: "sint (c_x c') = sint (Width c) - 1" if "int (RuneCountInString s) = room"
  proof -
    from that have "written = s"
      by (simp add: written_def)
    with that have "sint (c_x c) + n = sint (Width c)"
      by (simp add: n_def room_def)
    with x show ?thesis by simp
  qed
  from wr buf x dims inb fill show ?thesis
    unfolding Let_def room_def [symmetric] written_def [symmetric] n_def [symmetric]
    by blast
qed



text \<open>
  Claim C4. On a canvas whose cached cursor is in bounds \<open>Write\<close> returns; it appends the
  text it writes (the whole text, or its cut when the rune count exceeds the room left on
  the row), the cached column advances by the rune count of the text written and is
  clamped to \<open>width - 1\<close>, one step back on the terminal when it would reach \<open>width\<close>;
  the cached row stays, so the cursor is in bounds afterwards, and a text that exactly
  fills the room left puts the cursor at \<open>width - 1\<close>.
\<close>

theorem C4_Write_cursor:
  assumes "in_bounds c"
  shows "let room = sint (Width c) - sint (c_x c);
             written = (if room < int (RuneCountInString s) then take (nat room) s else s);
             n = int (RuneCountInString written)
         in \<exists>c'. Write s c = Some c'
              \<and> c_buf c' = c_buf c @ written
                    @ (if sint (Width c) \<le> sint (c_x c) + n then escape @ ''[1D'' else [])
              \<and> sint (c_x c') = min (sint (c_x c) + n) (sint (Width c) - 1)
              \<and> c_y c' = c_y c \<and> in_bounds c'
              \<and> (int (RuneCountInString s) = room \<longrightarrow> sint (c_x c') = sint (Width c) - 1)"
  using Write_result [OF assms, of s] unfolding Let_def by blast

theorem C4_Write_cursor_witness:
  "in_bounds three_by_one
   \<and> int (RuneCountInString ''abc'') = sint (Width three_by_one) - sint (c_x three_by_one)
   \<and> (\<exists>c'. Write ''abc'' three_by_one = Some c'
         \<and> c_buf c' = ''abc'' @ escape @ ''[1D'' \<and> sint (c_x c') = 2 \<and> c_y c' = 0
         \<and> in_bounds c')"
proof -
  have f: "Width three_by_one = 3" "c_x three_by_one = 0" "c_y three_by_one = 0"
    "c_buf three_by_one = []"
    by (simp_all add: three_by_one_eq)
  have n: "RuneCountInString ''abc'' = 3"
    by code_simp
  from C4_Write_cursor [OF in_bounds_three_by_one, of "''abc''"] in_bounds_three_by_one
  show ?thesis
    by (auto simp add: f n Let_def simp del: RuneCountInString.simps)
qed

section \<open>Colors and style\<close>

lemma c_style_SetStyle [simp]: "c_style (SetStyle sty c) = sty"
  by (simp add: SetStyle_def WriteString_def Let_def)


text \<open>
  Claim C10. A style value that differs from the cached one and has none of the seven
  attribute bits set (\<open>StyleNoChange\<close> or \<open>0\<close>, for instance) makes \<open>SetStyle\<close> append
  nothing and still store the value as the cached style. A following \<open>SetStyle\<close> with the
  style cached before is therefore no no-op: it appends the fragments of that style again
  and restores it.
\<close>

theorem C10_SetStyle_without_attribute_bits:
  assumes "sty \<noteq> c_style c"
    and "sty AND StyleNormal = 0" "sty AND StyleBold = 0" "sty AND StyleDim = 0"
      "sty AND StyleUnderlined = 0" "sty AND StyleBlink = 0" "sty AND StyleInverted = 0"
      "sty AND StyleHidden = 0"
  shows "SetStyle sty c = c\<lparr>c_style := sty\<rparr>
   \<and> SetStyle (c_style c) (SetStyle sty c) =
       c\<lparr>c_buf := c_buf c
         @ (if c_style c AND StyleNormal \<noteq> 0 then escape @ ''[0m'' else [])
         @ (if c_style c AND StyleBold \<noteq> 0 then escape @ ''[1m'' else [])
         @ (if c_style c AND StyleDim \<noteq> 0 then escape @ ''[2m'' else [])
         @ (if c_style c AND StyleUnderlined \<noteq> 0 then escape @ ''[4m'' else [])
         @ (if c_style c AND StyleBlink \<noteq> 0 then escape @ ''[5m'' else [])
         @ (if c_style c AND StyleInverted \<noteq> 0 then escape @ ''[7m'' else [])
         @ (if c_style c AND StyleHidden \<noteq> 0 then escape @ ''[8m'' else [])\<rparr>"
proof -
  have first: "SetStyle sty c = c\<lparr>c_style := sty\<rparr>"
    using assms by (simp add: SetStyle_def)
  have "SetStyle (c_style c) (c\<lparr>c_style := sty\<rparr>) =
       c\<lparr>c_buf := c_buf c
         @ (if c_style c AND StyleNormal \<noteq> 0 then escape @ ''[0m'' else [])
         @ (if c_style c AND StyleBold \<noteq> 0 then escape @ ''[1m'' else [])
         @ (if c_style c AND StyleDim \<noteq> 0 then escape @ ''[2m'' else [])
         @ (if c_style c AND StyleUnderlined \<noteq> 0 then escape @ ''[4m'' else [])
         @ (if c_style c AND StyleBlink \<noteq> 0 then escape @ ''[5m'' else [])
         @ (if c_style c AND StyleInverted \<noteq> 0 then escape @ ''[7m'' else [])
         @ (if c_style c AND StyleHidden \<noteq> 0 then escape @ ''[8m'' else [])\<rparr>"
    using assms(1) by (simp add: SetStyle_def WriteString_def Let_def)
  with first show ?thesis by simp
qed

theorem C10_SetStyle_without_attribute_bits_witness:
  "StyleNoChange \<noteq> c_style ten_by_five
   \<and> StyleNoChange AND StyleNormal = 0 \<and> StyleNoChange AND StyleBold = 0
   \<and> StyleNoChange AND StyleDim = 0 \<and> StyleNoChange AND StyleUnderlined = 0
   \<and> StyleNoChange AND StyleBlink = 0 \<and> StyleNoChange AND StyleInverted = 0
   \<and> StyleNoChange AND StyleHidden = 0
   \<and> SetStyle StyleNoChange ten_by_five = ten_by_five\<lparr>c_style := StyleNoChange\<rparr>
   \<and> SetStyle StyleNormal (SetStyle StyleNoChange ten_by_five) =
       ten_by_five\<lparr>c_buf := escape @ ''[0m''\<rparr>"
proof -
  have st: "c_style ten_by_five = StyleNormal" "c_buf ten_by_five = []"
    by (simp_all add: ten_by_five_eq StyleNormal_def)
  have hyps: "StyleNoChange \<noteq> c_style ten_by_five"
    "StyleNoChange AND StyleNormal = 0" "StyleNoChange AND StyleBold = 0"
    "StyleNoChange AND StyleDim = 0" "StyleNoChange AND StyleUnderlined = 0"
    "StyleNoChange AND StyleBlink = 0" "StyleNoChange AND StyleInverted = 0"
    "StyleNoChange AND StyleHidden = 0"
    by (simp_all add: st StyleNoChange_def StyleNormal_def StyleBold_def StyleDim_def
        StyleUnderlined_def StyleBlink_def StyleInverted_def StyleHidden_def)
  have bits: "StyleNormal \<noteq> 0" "StyleNormal AND StyleBold = 0"
    "StyleNormal AND StyleDim = 0" "StyleNormal AND StyleUnderlined = 0"
    "StyleNormal AND StyleBlink = 0" "StyleNormal AND StyleInverted = 0"
    "StyleNormal AND StyleHidden = 0"
    by (simp_all add: StyleNormal_def StyleBold_def StyleDim_def
        StyleUnderlined_def StyleBlink_def StyleInverted_def StyleHidden_def)
  note both = C10_SetStyle_without_attribute_bits [OF hyps]
  from both have a: "SetStyle StyleNoChange ten_by_five = ten_by_five\<lparr>c_style := StyleNoChange\<rparr>"
    by (rule conjunct1)
  from both [THEN conjunct2]
  have b: "SetStyle StyleNormal (SetStyle StyleNoChange ten_by_five) =
       ten_by_five\<lparr>c_buf := escape @ ''[0m''\<rparr>"
    by (simp add: st bits)
  from hyps a b show ?thesis
    by blast
qed

section \<open>Composite operations\<close>

lemma Move_failed:
  assumes "fst (Move x y c) = Some ErrorOutOfBounds"
  shows "Move x y c =
     (Some ErrorOutOfBounds,
      c\<lparr>Logger := map_option
        (\<lambda>seen. seen @ [''[error] out of bounds: ('' @ Itoa x @ '','' @ Itoa y @ '')''])
        (Logger c)\<rparr>)"
  using assms by (auto simp: Move_def Let_def errorF_Logger split: if_splits)

text \<open>
  Claim C6. When \<open>Move\<close> fails with \<open>ErrorOutOfBounds\<close>, \<open>Set\<close> and \<open>WriteAt\<close> both return
  (\<open>Set\<close> has no result through which an error could reach the caller) and leave the
  canvas as \<open>Move\<close> left it: the logger, if there is one, has received the message of
  \<open>Move\<close>, and the buffer, the cursor, the cached colors and the cached style are
  untouched, so no character, style, color or text has been applied.
\<close>

theorem C6_failed_Move_aborts:
  assumes "fst (Move x y c) = Some ErrorOutOfBounds"
  shows "Set x y char c =
       Some (c\<lparr>Logger := map_option
         (\<lambda>seen. seen @ [''[error] out of bounds: ('' @ Itoa x @ '','' @ Itoa y @ '')''])
         (Logger c)\<rparr>)
   \<and> WriteAt ix x y foreground background sty s c =
       Some (c\<lparr>Logger := map_option
         (\<lambda>seen. seen @ [''[error] out of bounds: ('' @ Itoa x @ '','' @ Itoa y @ '')''])
         (Logger c)\<rparr>)"
  using Move_failed [OF assms] by (simp add: Set_def WriteAt_def)

theorem C6_failed_Move_aborts_witness:
  "fst (Move 10 0 (ten_by_five\<lparr>Logger := Some []\<rparr>)) = Some ErrorOutOfBounds
   \<and> Set 10 0 88 (ten_by_five\<lparr>Logger := Some []\<rparr>) =
       Some (ten_by_five\<lparr>Logger := Some [''[error] out of bounds: (10,0)'']\<rparr>)
   \<and> WriteAt (\<lambda>v. 0) 10 0 ColorWhite ColorRed StyleBold ''abc'' (ten_by_five\<lparr>Logger := Some []\<rparr>) =
       Some (ten_by_five\<lparr>Logger := Some [''[error] out of bounds: (10,0)'']\<rparr>)"
proof -
  have h: "fst (Move 10 0 (ten_by_five\<lparr>Logger := Some []\<rparr>)) = Some ErrorOutOfBounds"
    by (simp add: ten_by_five_eq Move_def word_sless_alt)
  have i: "Itoa 10 = ''10''" "Itoa 0 = ''0''"
    by code_simp+
  from C6_failed_Move_aborts [OF h, of 88 "\<lambda>v. 0" ColorWhite ColorRed StyleBold "''abc''"] h
  show ?thesis
    by (simp add: i)
qed

section \<open>Flush\<close>

text \<open>
  Claim C7 does not hold of the code where the buffer holds a percent sign. \<open>Flush\<close> calls
  \<open>fmt.Printf(c.buf.String())\<close>: the buffer is the format string of the call, not an
  operand, so \<open>fmt\<close> interprets every \<open>%\<close> in it. After \<open>Write("5%")\<close> on the canvas of
  three columns the buffer is \<open>5%\<close>, and \<open>Flush\<close> makes the single call
  \<open>fmt.Printf("5%")\<close> and empties the buffer; for a format that ends in \<open>%\<close> with no verb
  \<open>fmt\<close> writes \<open>%!(NOVERB)\<close>, so the terminal receives \<open>5%!(NOVERB)\<close> and not the
  buffer.
\<close>

theorem C7_Flush_passes_buffer_as_format:
  "Write ''5%'' three_by_one = Some (three_by_one\<lparr>c_buf := ''5%'', c_x := 2\<rparr>)
   \<and> Flush (three_by_one\<lparr>c_buf := ''5%'', c_x := 2\<rparr>) =
       three_by_one\<lparr>c_x := 2, printed := printed three_by_one @ [''5%'']\<rparr>"
  by code_simp

section \<open>The cursor stays on the canvas\<close>

lemma Move_fields [simp]:
  "Width (snd (Move x y c)) = Width c" "Height (snd (Move x y c)) = Height c"
  "CursorOnEnd (snd (Move x y c)) = CursorOnEnd c"
  by (simp_all add: Move_def Move_move_def Move_write_def WriteString_def Let_def)


lemma setBgFg_fields [simp]:
  "Width (setBgFg ix clr g c) = Width c" "Height (setBgFg ix clr g c) = Height c"
  "c_x (setBgFg ix clr g c) = c_x c" "c_y (setBgFg ix clr g c) = c_y c"
  by (simp_all add: setBgFg_def WriteString_def Let_def)

lemma SetBackground_fields [simp]:
  "Width (SetBackground ix clr c) = Width c" "Height (SetBackground ix clr c) = Height c"
  "c_x (SetBackground ix clr c) = c_x c" "c_y (SetBackground ix clr c) = c_y c"
  by (simp_all add: SetBackground_def)

lemma SetForeground_fields [simp]:
  "Width (SetForeground ix clr c) = Width c" "Height (SetForeground ix clr c) = Height c"
  "c_x (SetForeground ix clr c) = c_x c" "c_y (SetForeground ix clr c) = c_y c"
  by (simp_all add: SetForeground_def)

lemma SetStyle_fields [simp]:
  "Width (SetStyle sty c) = Width c" "Height (SetStyle sty c) = Height c"
  "c_x (SetStyle sty c) = c_x c" "c_y (SetStyle sty c) = c_y c"
  by (simp_all add: SetStyle_def WriteString_def Let_def)

lemma in_bounds_setters [simp]:
  "in_bounds (SetBackground ix clr c) = in_bounds c"
  "in_bounds (SetForeground ix clr c) = in_bounds c"
  "in_bounds (SetStyle sty c) = in_bounds c"
  by (simp_all add: in_bounds_def)









lemma NewCanvas_cols_fields [simp]:
  "Width (NewCanvas_cols i c) = Width c" "Height (NewCanvas_cols i c) = Height c"
  by (induction i c rule: NewCanvas_cols.induct; subst NewCanvas_cols.simps;
      simp add: WriteString_def)+

lemma NewCanvas_rows_fields [simp]:
  "Width (NewCanvas_rows ix background i c) = Width c"
  "Height (NewCanvas_rows ix background i c) = Height c"
  by (induction ix background i c rule: NewCanvas_rows.induct; subst NewCanvas_rows.simps;
      simp add: WriteString_def Let_def)+

lemma NewCanvas_fill_fields [simp]:
  "Width (NewCanvas_fill ix width height background) = width"
  "Height (NewCanvas_fill ix width height background) = height"
  "c_x (NewCanvas_fill ix width height background) = width"
  "c_y (NewCanvas_fill ix width height background) = height - 1"
  by (simp_all add: NewCanvas_fill_def Let_def)






section \<open>Color resolution\<close>












end
